theory Spec2Isabelle
  imports Complex_Main
begin

section \<open>JavaScript numbers\<close>

text \<open>
  Every quantity of the program is a JavaScript \<^verbatim>\<open>number\<close>. The model keeps the
  special values of IEEE arithmetic, because the program relies on them (a division by
  zero does not throw, \<^verbatim>\<open>NaN > 0\<close> is false, \<^verbatim>\<open>x || 0\<close> replaces \<^verbatim>\<open>NaN\<close> and
  \<^verbatim>\<open>0\<close>). A finite value is a real number, and the sum, product and quotient of
  finite values are the exact ones: the rounding of a binary64 operation and its overflow
  to an infinity are not modelled, and the two zeros are one value (taken as the positive
  zero in a division). The properties below are therefore stated on the expressions the
  program evaluates, and a value is computed only where the binary64 result is exact
  (small integers, halves, a product with 0, a sum with 0, a quotient by 1).
\<close>

datatype number = Num real | PosInf | NegInf | NaN

text \<open>The infinity with the sign of a real; \<^verbatim>\<open>NaN\<close> for the sign of zero.\<close>

definition inf_of_sign :: "real \<Rightarrow> number" where
  "inf_of_sign s = (if 0 < s then PosInf else if s < 0 then NegInf else NaN)"

fun js_neg :: "number \<Rightarrow> number" where
  "js_neg (Num x) = Num (- x)"
| "js_neg PosInf = NegInf"
| "js_neg NegInf = PosInf"
| "js_neg NaN = NaN"

fun js_add :: "number \<Rightarrow> number \<Rightarrow> number" where
  "js_add (Num x) (Num y) = Num (x + y)"
| "js_add NaN b = NaN"
| "js_add a NaN = NaN"
| "js_add PosInf NegInf = NaN"
| "js_add NegInf PosInf = NaN"
| "js_add PosInf b = PosInf"
| "js_add NegInf b = NegInf"
| "js_add a PosInf = PosInf"
| "js_add a NegInf = NegInf"

definition js_sub :: "number \<Rightarrow> number \<Rightarrow> number" where
  "js_sub a b = js_add a (js_neg b)"

fun js_mul :: "number \<Rightarrow> number \<Rightarrow> number" where
  "js_mul (Num x) (Num y) = Num (x * y)"
| "js_mul NaN b = NaN"
| "js_mul a NaN = NaN"
| "js_mul PosInf (Num y) = inf_of_sign y"
| "js_mul NegInf (Num y) = inf_of_sign (- y)"
| "js_mul (Num x) PosInf = inf_of_sign x"
| "js_mul (Num x) NegInf = inf_of_sign (- x)"
| "js_mul PosInf PosInf = PosInf"
| "js_mul NegInf NegInf = PosInf"
| "js_mul PosInf NegInf = NegInf"
| "js_mul NegInf PosInf = NegInf"

fun js_div :: "number \<Rightarrow> number \<Rightarrow> number" where
  "js_div (Num x) (Num y) = (if y = 0 then inf_of_sign x else Num (x / y))"
| "js_div NaN b = NaN"
| "js_div a NaN = NaN"
| "js_div (Num x) PosInf = Num 0"
| "js_div (Num x) NegInf = Num 0"
| "js_div PosInf (Num y) = (if 0 \<le> y then PosInf else NegInf)"
| "js_div NegInf (Num y) = (if 0 \<le> y then NegInf else PosInf)"
| "js_div a b = NaN"

text \<open>\<^verbatim>\<open>a > b\<close>: false as soon as one side is \<^verbatim>\<open>NaN\<close>.\<close>

fun js_gt :: "number \<Rightarrow> number \<Rightarrow> bool" where
  "js_gt (Num x) (Num y) = (y < x)"
| "js_gt NaN b = False"
| "js_gt a NaN = False"
| "js_gt PosInf PosInf = False"
| "js_gt PosInf b = True"
| "js_gt a NegInf = (a \<noteq> NegInf)"
| "js_gt a b = False"

text \<open>\<^verbatim>\<open>a === b\<close> on numbers: \<^verbatim>\<open>NaN\<close> is equal to nothing.\<close>

definition js_eq :: "number \<Rightarrow> number \<Rightarrow> bool" where
  "js_eq a b = (a \<noteq> NaN \<and> a = b)"

fun js_abs :: "number \<Rightarrow> number" where
  "js_abs (Num x) = Num \<bar>x\<bar>"
| "js_abs NaN = NaN"
| "js_abs a = PosInf"

text \<open>\<^verbatim>\<open>Math.min\<close> and \<^verbatim>\<open>Math.max\<close> of two numbers.\<close>

fun js_min :: "number \<Rightarrow> number \<Rightarrow> number" where
  "js_min (Num x) (Num y) = Num (min x y)"
| "js_min NaN b = NaN"
| "js_min a NaN = NaN"
| "js_min NegInf b = NegInf"
| "js_min a NegInf = NegInf"
| "js_min PosInf b = b"
| "js_min a PosInf = a"

fun js_max :: "number \<Rightarrow> number \<Rightarrow> number" where
  "js_max (Num x) (Num y) = Num (max x y)"
| "js_max NaN b = NaN"
| "js_max a NaN = NaN"
| "js_max PosInf b = PosInf"
| "js_max a PosInf = PosInf"
| "js_max NegInf b = b"
| "js_max a NegInf = a"

text \<open>Truthiness of a number, as \<^verbatim>\<open>&&\<close> and \<^verbatim>\<open>||\<close> test it: \<^verbatim>\<open>0\<close> and \<^verbatim>\<open>NaN\<close> are falsy.\<close>

definition truthy :: "number \<Rightarrow> bool" where
  "truthy a = (a \<noteq> Num 0 \<and> a \<noteq> NaN)"

text \<open>The finite numbers.\<close>

fun fin :: "number \<Rightarrow> bool" where
  "fin (Num x) = True"
| "fin a = False"


section \<open>The PnL calculator\<close>

text \<open>The interfaces \<^verbatim>\<open>WalletData\<close> (its field \<^verbatim>\<open>id\<close> is \<open>walletId\<close> here) and
  \<^verbatim>\<open>CalculatedWallet extends WalletData\<close>.\<close>

record WalletData =
  walletId :: string
  walletAddress :: string
  tokenName :: string
  investedAmount :: number
  entryMarketCap :: number
  exitMarketCap :: number

record CalculatedWallet = WalletData +
  rawPnL :: number
  pnLPercentage :: number
  redistributionAmount :: number
  finalBalance :: number
  isProfit :: bool

text \<open>The callback of \<^verbatim>\<open>walletData.map\<close>, the same in both versions of the component.
  It has no \<^verbatim>\<open>throw\<close> and the division does not throw.\<close>

definition walletWithPnL :: "WalletData \<Rightarrow> CalculatedWallet" where
  "walletWithPnL wallet =
     (let marketCapRatio = js_div (exitMarketCap wallet) (entryMarketCap wallet);
          newValue = js_mul (investedAmount wallet) marketCapRatio;
          rawPnL' = js_sub newValue (investedAmount wallet);
          pnLPercentage' = js_mul (js_sub marketCapRatio (Num 1)) (Num 100)
      in \<lparr> walletId = walletId wallet, walletAddress = walletAddress wallet,
           tokenName = tokenName wallet, investedAmount = investedAmount wallet,
           entryMarketCap = entryMarketCap wallet, exitMarketCap = exitMarketCap wallet,
           rawPnL = rawPnL', pnLPercentage = pnLPercentage',
           redistributionAmount = Num 0,
           finalBalance = js_add (investedAmount wallet) rawPnL',
           isProfit = js_gt rawPnL' (Num 0) \<rparr>)"

text \<open>\<^verbatim>\<open>xs.reduce((sum, w) => sum + f(w), 0)\<close>.\<close>

definition reduce_sum :: "('a \<Rightarrow> number) \<Rightarrow> 'a list \<Rightarrow> number" where
  "reduce_sum f xs = foldl (\<lambda>sum w. js_add sum (f w)) (Num 0) xs"

definition totalProfit :: "CalculatedWallet list \<Rightarrow> number" where
  "totalProfit walletsWithPnL = reduce_sum rawPnL (filter isProfit walletsWithPnL)"

definition totalLoss :: "CalculatedWallet list \<Rightarrow> number" where
  "totalLoss walletsWithPnL =
     js_abs (reduce_sum rawPnL (filter (\<lambda>w. \<not> isProfit w) walletsWithPnL))"

text \<open>The body of \<^verbatim>\<open>losers.forEach\<close> of the pool-capped version:
  \<open>pool\<close> is the local \<^verbatim>\<open>redistributionAmount = Math.min(totalProfit, totalLoss)\<close>,
  \<open>n\<close> is \<^verbatim>\<open>losers.length\<close>. The \<^verbatim>\<open>switch\<close> has no default: any other mode leaves
  the loser's amount as it is. \<^verbatim>\<open>customPercentages[loser.id] || 0\<close> is 0 for a missing
  key, for 0 and for \<^verbatim>\<open>NaN\<close>.\<close>

definition customPercentage :: "(string \<rightharpoonup> number) \<Rightarrow> CalculatedWallet \<Rightarrow> number" where
  "customPercentage customPercentages loser =
     (case customPercentages (walletId loser) of
        None \<Rightarrow> Num 0
      | Some p \<Rightarrow> if truthy p then p else Num 0)"

definition loserAmount ::
  "string \<Rightarrow> (string \<rightharpoonup> number) \<Rightarrow> number \<Rightarrow> nat \<Rightarrow> number \<Rightarrow> CalculatedWallet \<Rightarrow> number" where
  "loserAmount redistributionMode customPercentages pool n totLoss loser =
     (if redistributionMode = ''equal'' then js_div pool (Num (real n))
      else if redistributionMode = ''proportional'' then
        (let lossRatio = js_div (js_abs (rawPnL loser)) totLoss in js_mul pool lossRatio)
      else if redistributionMode = ''custom'' then
        js_div (js_mul pool (customPercentage customPercentages loser)) (Num 100)
      else redistributionAmount loser)"

definition updateLoser ::
  "string \<Rightarrow> (string \<rightharpoonup> number) \<Rightarrow> number \<Rightarrow> nat \<Rightarrow> number \<Rightarrow> CalculatedWallet
     \<Rightarrow> CalculatedWallet" where
  "updateLoser redistributionMode customPercentages pool n totLoss loser =
     (let amt = loserAmount redistributionMode customPercentages pool n totLoss loser
      in loser\<lparr> redistributionAmount := amt,
                finalBalance := js_add (js_add (investedAmount loser) (rawPnL loser)) amt \<rparr>)"

text \<open>The body of \<^verbatim>\<open>winners.forEach\<close>.\<close>

definition updateWinner :: "number \<Rightarrow> number \<Rightarrow> CalculatedWallet \<Rightarrow> CalculatedWallet" where
  "updateWinner totalRedistributionOut totProfit winner =
     (let profitRatio = js_div (rawPnL winner) totProfit;
          amt = js_mul (js_neg totalRedistributionOut) profitRatio
      in winner\<lparr> redistributionAmount := amt,
                 finalBalance := js_add (js_add (investedAmount winner) (rawPnL winner)) amt \<rparr>)"

text \<open>\<^verbatim>\<open>calculatePnL\<close> of the pool-capped version. The result is the argument of
  \<^verbatim>\<open>setCalculatedData\<close>; \<open>None\<close> is the return on an empty \<^verbatim>\<open>walletData\<close>, which sets
  nothing. \<^verbatim>\<open>losers\<close> and \<^verbatim>\<open>winners\<close> hold the very objects of \<^verbatim>\<open>walletsWithPnL\<close>, each
  object in exactly one of them, so the two \<^verbatim>\<open>forEach\<close> loops update \<^verbatim>\<open>walletsWithPnL\<close>
  in place: the list that is set is \<^verbatim>\<open>walletsWithPnL\<close> with every loser and every winner
  replaced by its updated record.\<close>

definition calculatePnL ::
  "string \<Rightarrow> (string \<rightharpoonup> number) \<Rightarrow> WalletData list \<Rightarrow> CalculatedWallet list option" where
  "calculatePnL redistributionMode customPercentages walletData =
     (if length walletData = 0 then None
      else
        let walletsWithPnL = map walletWithPnL walletData;
            totProfit = totalProfit walletsWithPnL;
            totLoss = totalLoss walletsWithPnL;
            losers = filter (\<lambda>w. \<not> isProfit w) walletsWithPnL
        in if js_eq totProfit (Num 0) \<or> js_eq totLoss (Num 0) then Some walletsWithPnL
           else
             let pool = js_min totProfit totLoss;
                 upd = updateLoser redistributionMode customPercentages pool
                         (length losers) totLoss;
                 totalRedistributionOut = reduce_sum redistributionAmount (map upd losers)
             in Some (map (\<lambda>w. if isProfit w
                                then updateWinner totalRedistributionOut totProfit w
                                else upd w) walletsWithPnL))"

text \<open>\<^verbatim>\<open>calculatePnL\<close> of the full-clawback version of the component. It reads neither
  the mode nor the percentages. \<open>profitToRedistribute\<close> reads the winner's
  \<^verbatim>\<open>finalBalance\<close> before the same iteration overwrites it.\<close>

definition profitToRedistribute :: "CalculatedWallet \<Rightarrow> number" where
  "profitToRedistribute winner =
     js_max (Num 0) (js_sub (finalBalance winner) (investedAmount winner))"

definition clawbackWinner :: "CalculatedWallet \<Rightarrow> CalculatedWallet" where
  "clawbackWinner winner =
     winner\<lparr> redistributionAmount := js_neg (profitToRedistribute winner),
              finalBalance := investedAmount winner \<rparr>"

definition clawbackLoser :: "number \<Rightarrow> nat \<Rightarrow> CalculatedWallet \<Rightarrow> CalculatedWallet" where
  "clawbackLoser totalRedistributableProfit n loser =
     (let amt = js_div totalRedistributableProfit (Num (real n))
      in loser\<lparr> redistributionAmount := amt,
                finalBalance := js_add (js_add (investedAmount loser) (rawPnL loser)) amt \<rparr>)"

definition calculatePnL_clawback :: "WalletData list \<Rightarrow> CalculatedWallet list option" where
  "calculatePnL_clawback walletData =
     (if length walletData = 0 then None
      else
        let walletsWithPnL = map walletWithPnL walletData;
            totProfit = totalProfit walletsWithPnL;
            totLoss = totalLoss walletsWithPnL;
            losers = filter (\<lambda>w. \<not> isProfit w) walletsWithPnL;
            winners = filter isProfit walletsWithPnL
        in if js_eq totProfit (Num 0) \<or> js_eq totLoss (Num 0) then Some walletsWithPnL
           else
             let totalRedistributableProfit = reduce_sum profitToRedistribute winners
             in Some (map (\<lambda>w. if isProfit w then clawbackWinner w
                                else clawbackLoser totalRedistributableProfit (length losers) w)
                        walletsWithPnL))"

text \<open>The error-valued reading of the PnL step of one wallet: the callback returns a
  record on every input, so the result is never an error.\<close>

datatype pnl_error = DivisionByZero

definition computePnL :: "WalletData \<Rightarrow> pnl_error + CalculatedWallet" where
  "computePnL wallet = Inr (walletWithPnL wallet)"


section \<open>Position reconstruction: \<^verbatim>\<open>TokenService.fetchWalletData\<close>\<close>

text \<open>\<^verbatim>\<open>TokenData\<close> without its \<^verbatim>\<open>priceHistory\<close>, which the function does not read, and
  the part of the Helius response that it reads. Timestamps are integers (seconds). \<open>tokenTransfers = None\<close> is a transaction without
  the field; \<open>decimals = None\<close> is a transfer without it (\<^verbatim>\<open>transfer.decimals || 0\<close>).\<close>

record TokenData =
  tokenDataName :: string
  tokenDataSymbol :: string
  currentMarketCap :: number

record TokenTransfer =
  mint :: string
  toUserAccount :: string
  fromUserAccount :: string
  tokenAmount :: number
  decimals :: "nat option"

record Transaction =
  tokenTransfers :: "TokenTransfer list option"
  txTimestamp :: int

text \<open>An element of \<^verbatim>\<open>buys\<close> or \<^verbatim>\<open>sells\<close>.\<close>

record Trade =
  amount :: number
  timestamp :: int

text \<open>What \<^verbatim>\<open>fetchHistoricalPriceAndMarketCapUSD\<close> returns when it does not return
  \<^verbatim>\<open>null\<close>. The call itself is the parameter \<open>priceAt\<close> of the model, a function of the
  timestamp; \<open>None\<close> is \<^verbatim>\<open>null\<close>.\<close>

record PriceSample =
  price :: number
  marketCap :: number

record WalletPosition =
  posInvestedAmount :: number
  posEntryMarketCap :: number
  posExitMarketCap :: number

definition NoBuyActivity :: string where
  "NoBuyActivity = ''No buy (IN) transactions found for this wallet/token.''"

text \<open>\<^verbatim>\<open>Math.pow(10, d)\<close> for a natural \<open>d\<close>: the power up to \<open>10^308\<close>, \<^verbatim>\<open>Infinity\<close>
  from \<open>d = 309\<close> on.\<close>

definition pow10 :: "nat \<Rightarrow> number" where
  "pow10 d = (if d \<le> 308 then Num (10 ^ d) else PosInf)"

text \<open>The object pushed for a transfer.\<close>

definition tradeOf :: "Transaction \<Rightarrow> TokenTransfer \<Rightarrow> Trade" where
  "tradeOf tx transfer =
     \<lparr> amount = js_div (tokenAmount transfer)
                  (pow10 (case decimals transfer of None \<Rightarrow> 0 | Some d \<Rightarrow> d)),
       timestamp = txTimestamp tx \<rparr>"

text \<open>The two lists filled by the loop over the transactions, in the order of the pushes.\<close>

definition collectBuys :: "string \<Rightarrow> string \<Rightarrow> Transaction list \<Rightarrow> Trade list" where
  "collectBuys walletAddr contractAddress transactions =
     concat (map (\<lambda>tx. case tokenTransfers tx of
                          None \<Rightarrow> []
                        | Some transfers \<Rightarrow>
                            map (tradeOf tx)
                              (filter (\<lambda>transfer. mint transfer = contractAddress
                                         \<and> toUserAccount transfer = walletAddr) transfers))
                 transactions)"

definition collectSells :: "string \<Rightarrow> string \<Rightarrow> Transaction list \<Rightarrow> Trade list" where
  "collectSells walletAddr contractAddress transactions =
     concat (map (\<lambda>tx. case tokenTransfers tx of
                          None \<Rightarrow> []
                        | Some transfers \<Rightarrow>
                            map (tradeOf tx)
                              (filter (\<lambda>transfer. mint transfer = contractAddress
                                         \<and> fromUserAccount transfer = walletAddr) transfers))
                 transactions)"

text \<open>The state of the loop over the buys: the array \<^verbatim>\<open>sells\<close> (its amounts are
  decremented in place) and the three local variables.\<close>

record ReconState =
  stSells :: "Trade list"
  stSellIndex :: nat
  stInvestedAmount :: number
  stNetTokens :: number

text \<open>The first inner loop:
  \<^verbatim>\<open>while (sellIndex < sells.length && sells[sellIndex].timestamp <= buy.timestamp) sellIndex++\<close>.\<close>

function skipSells :: "Trade list \<Rightarrow> int \<Rightarrow> nat \<Rightarrow> nat" where
  "skipSells sells buyTimestamp sellIndex =
     (if sellIndex < length sells \<and> timestamp (sells ! sellIndex) \<le> buyTimestamp
      then skipSells sells buyTimestamp (sellIndex + 1)
      else sellIndex)"
  by pat_completeness auto
termination
  by (relation "measure (\<lambda>(sells, buyTimestamp, sellIndex). length sells - sellIndex)") auto

text \<open>The second inner loop, \<^verbatim>\<open>while (buyAmount > 0 && sellIndex < sells.length)\<close>. It
  returns the buy amount left, the array and the index.\<close>

function matchSells :: "number \<Rightarrow> Trade list \<Rightarrow> nat \<Rightarrow> number \<times> Trade list \<times> nat" where
  "matchSells buyAmount sells sellIndex =
     (if js_gt buyAmount (Num 0) \<and> sellIndex < length sells then
        (let sell = sells ! sellIndex;
             sellAmount = js_min buyAmount (amount sell);
             buyAmount' = js_sub buyAmount sellAmount;
             sells' = sells[sellIndex := sell\<lparr> amount := js_sub (amount sell) sellAmount \<rparr>];
             sellIndex' = (if js_eq (amount (sells' ! sellIndex)) (Num 0)
                           then sellIndex + 1 else sellIndex)
         in matchSells buyAmount' sells' sellIndex')
      else (buyAmount, sells, sellIndex))"
  by pat_completeness auto
termination
proof (relation "measure (\<lambda>(buyAmount, sells, sellIndex).
          3 * (length sells - sellIndex)
          + (if js_gt buyAmount (Num 0) \<and> sellIndex < length sells
             then (if amount (sells ! sellIndex) = NaN then 1 else 2) else 0))")
  show "wf (measure (\<lambda>(buyAmount, sells, sellIndex).
          3 * (length sells - sellIndex)
          + (if js_gt buyAmount (Num 0) \<and> sellIndex < length sells
             then (if amount (sells ! sellIndex) = NaN then 1 else 2) else 0)))"
    by simp
next
  fix buyAmount :: number and sells :: "Trade list" and sellIndex :: nat
    and sell sellAmount buyAmount' sells' sellIndex'
  assume run: "js_gt buyAmount (Num 0) \<and> sellIndex < length sells"
    and defs: "sell = sells ! sellIndex" "sellAmount = js_min buyAmount (amount sell)"
      "buyAmount' = js_sub buyAmount sellAmount"
      "sells' = sells[sellIndex := sell\<lparr> amount := js_sub (amount sell) sellAmount \<rparr>]"
      "sellIndex' = (if js_eq (amount (sells' ! sellIndex)) (Num 0)
                     then sellIndex + 1 else sellIndex)"
  from run have lt: "sellIndex < length sells" and pos: "js_gt buyAmount (Num 0)" by simp_all
  have step: "js_sub (amount sell) sellAmount = Num 0
              \<or> \<not> js_gt buyAmount' (Num 0)
              \<or> (amount sell \<noteq> NaN \<and> js_sub (amount sell) sellAmount = NaN)"
    using pos unfolding defs(2,3)
    by (cases buyAmount; cases "amount sell") (auto simp: js_sub_def)
  show "((buyAmount', sells', sellIndex'), (buyAmount, sells, sellIndex))
        \<in> measure (\<lambda>(buyAmount, sells, sellIndex).
          3 * (length sells - sellIndex)
          + (if js_gt buyAmount (Num 0) \<and> sellIndex < length sells
             then (if amount (sells ! sellIndex) = NaN then 1 else 2) else 0))"
    using step lt pos defs(1) unfolding defs(4,5)
    by (auto simp: js_eq_def)
qed

text \<open>The body of \<^verbatim>\<open>for (const buy of buys)\<close>. \<^verbatim>\<open>priceData?.price || 0\<close> is 0 when the
  oracle returns \<^verbatim>\<open>null\<close> and when the price is 0 or \<^verbatim>\<open>NaN\<close>.\<close>

definition priceOrZero :: "PriceSample option \<Rightarrow> number" where
  "priceOrZero priceData =
     (case priceData of None \<Rightarrow> Num 0 | Some d \<Rightarrow> if truthy (price d) then price d else Num 0)"

definition processBuy :: "(int \<Rightarrow> PriceSample option) \<Rightarrow> ReconState \<Rightarrow> Trade \<Rightarrow> ReconState" where
  "processBuy priceAt st buy =
     (let sellIndex1 = skipSells (stSells st) (timestamp buy) (stSellIndex st);
          (buyAmount, sells', sellIndex2) = matchSells (amount buy) (stSells st) sellIndex1
      in if js_gt buyAmount (Num 0) then
           (let priceData = priceAt (timestamp buy);
                price' = priceOrZero priceData
            in \<lparr> stSells = sells', stSellIndex = sellIndex2,
                 stInvestedAmount = js_add (stInvestedAmount st) (js_mul buyAmount price'),
                 stNetTokens = js_add (stNetTokens st) buyAmount \<rparr>)
         else st\<lparr> stSells := sells', stSellIndex := sellIndex2 \<rparr>)"

text \<open>\<^verbatim>\<open>entryData && entryData.marketCap\<close> selects the sample's market cap; otherwise
  the variable keeps \<^verbatim>\<open>tokenData.currentMarketCap\<close>.\<close>

definition marketCapOr :: "number \<Rightarrow> PriceSample option \<Rightarrow> number" where
  "marketCapOr current sample =
     (case sample of None \<Rightarrow> current
      | Some d \<Rightarrow> if truthy (marketCap d) then marketCap d else current)"

text \<open>\<^verbatim>\<open>fetchWalletData\<close> from the parsed response on: \<open>transactions\<close> is the array the
  Helius request returned, \<open>now\<close> is \<^verbatim>\<open>Math.floor(Date.now() / 1000)\<close>. The result is
  \<open>Inl\<close> the \<^verbatim>\<open>error\<close> string of a \<^verbatim>\<open>success: false\<close> return, or \<open>Inr\<close> the \<^verbatim>\<open>data\<close>.
  \<^verbatim>\<open>Array.prototype.sort\<close> is stable, as \<open>sort_key\<close> is.\<close>

definition fetchWalletData ::
  "string \<Rightarrow> string \<Rightarrow> TokenData \<Rightarrow> int \<Rightarrow> (int \<Rightarrow> PriceSample option) \<Rightarrow> Transaction list
     \<Rightarrow> string + WalletPosition" where
  "fetchWalletData walletAddr contractAddress tokenData now priceAt transactions =
     (let buys = collectBuys walletAddr contractAddress transactions;
          sells = collectSells walletAddr contractAddress transactions
      in if length buys = 0 then Inl NoBuyActivity
         else
           let buys' = sort_key timestamp buys;
               sells' = sort_key timestamp sells;
               entryTimestamp = timestamp (buys' ! 0);
               exitTimestamp = (if length sells' > 0 then timestamp (sells' ! (length sells' - 1))
                                else now);
               entryMarketCap' = marketCapOr (currentMarketCap tokenData) (priceAt entryTimestamp);
               exitMarketCap' = marketCapOr (currentMarketCap tokenData) (priceAt exitTimestamp);
               st = foldl (processBuy priceAt)
                      \<lparr> stSells = sells', stSellIndex = 0, stInvestedAmount = Num 0,
                        stNetTokens = Num 0 \<rparr> buys'
           in Inr \<lparr> posInvestedAmount = stInvestedAmount st,
                    posEntryMarketCap = entryMarketCap',
                    posExitMarketCap = exitMarketCap' \<rparr>)"


section \<open>Predicates and inputs of the properties\<close>

text \<open>The partitions of a group and its pool \<^verbatim>\<open>Math.min(totalProfit, totalLoss)\<close>.\<close>

definition winnersOf :: "WalletData list \<Rightarrow> CalculatedWallet list" where
  "winnersOf walletData = filter isProfit (map walletWithPnL walletData)"

definition losersOf :: "WalletData list \<Rightarrow> CalculatedWallet list" where
  "losersOf walletData = filter (\<lambda>w. \<not> isProfit w) (map walletWithPnL walletData)"

definition poolOf :: "WalletData list \<Rightarrow> number" where
  "poolOf walletData =
     js_min (totalProfit (map walletWithPnL walletData)) (totalLoss (map walletWithPnL walletData))"

text \<open>A list of calculated records annotates a group when it holds one record per
  wallet, in the order of the group, with the wallet's id and invested amount and with
  the \<open>rawPnL\<close> and the profit flag of the PnL step.\<close>

definition annotates :: "CalculatedWallet list \<Rightarrow> WalletData list \<Rightarrow> bool" where
  "annotates out walletData =
     (map walletId out = map walletId walletData
      \<and> map investedAmount out = map investedAmount walletData
      \<and> map rawPnL out = map rawPnL (map walletWithPnL walletData)
      \<and> map isProfit out = map isProfit (map walletWithPnL walletData))"

text \<open>The two timestamps at which \<^verbatim>\<open>fetchWalletData\<close> asks the oracle for a market
  cap, and an oracle that reports every sample with price 0 and market cap 0 as a miss.\<close>

definition entryTimestampOf :: "string \<Rightarrow> string \<Rightarrow> Transaction list \<Rightarrow> int" where
  "entryTimestampOf walletAddr contractAddress transactions =
     timestamp (sort_key timestamp (collectBuys walletAddr contractAddress transactions) ! 0)"

definition exitTimestampOf :: "string \<Rightarrow> string \<Rightarrow> int \<Rightarrow> Transaction list \<Rightarrow> int" where
  "exitTimestampOf walletAddr contractAddress now transactions =
     (let sells' = sort_key timestamp (collectSells walletAddr contractAddress transactions)
      in if length sells' > 0 then timestamp (sells' ! (length sells' - 1)) else now)"

definition zeroToMiss :: "(int \<Rightarrow> PriceSample option) \<Rightarrow> int \<Rightarrow> PriceSample option" where
  "zeroToMiss priceAt t =
     (case priceAt t of
        None \<Rightarrow> None
      | Some d \<Rightarrow> if price d = Num 0 \<and> marketCap d = Num 0 then None else Some d)"

text \<open>Concrete inputs: a wallet, and the transactions of the third end-to-end example
  of the specification (buys of 100 at time 0 and 50 at time 10 to wallet \<open>W\<close>, a sell of
  120 at time 5) with an oracle that answers every timestamp with price 2.\<close>

definition mkWallet :: "string \<Rightarrow> real \<Rightarrow> real \<Rightarrow> real \<Rightarrow> WalletData" where
  "mkWallet i invested entry exit' =
     \<lparr> walletId = i, walletAddress = i, tokenName = ''T'', investedAmount = Num invested,
       entryMarketCap = Num entry, exitMarketCap = Num exit' \<rparr>"

definition mkTransfer :: "string \<Rightarrow> string \<Rightarrow> real \<Rightarrow> TokenTransfer" where
  "mkTransfer src dst n =
     \<lparr> mint = ''M'', toUserAccount = dst, fromUserAccount = src, tokenAmount = Num n,
       decimals = None \<rparr>"

definition example3 :: "Transaction list" where
  "example3 =
     [\<lparr> tokenTransfers = Some [mkTransfer ''X'' ''W'' 100], txTimestamp = 0 \<rparr>,
      \<lparr> tokenTransfers = Some [mkTransfer ''W'' ''X'' 120], txTimestamp = 5 \<rparr>,
      \<lparr> tokenTransfers = Some [mkTransfer ''X'' ''W'' 50], txTimestamp = 10 \<rparr>]"

definition priceTwo :: "int \<Rightarrow> PriceSample option" where
  "priceTwo t = Some \<lparr> price = Num 2, marketCap = Num 1000 \<rparr>"

definition tokenT :: TokenData where
  "tokenT = \<lparr> tokenDataName = ''T'', tokenDataSymbol = ''T'', currentMarketCap = Num 7 \<rparr>"

text \<open>The group of the second end-to-end example: \<open>A\<close> gains 500, \<open>B\<close> loses 500.\<close>

definition exampleGroup :: "WalletData list" where
  "exampleGroup = [mkWallet ''A'' 1000 1000000 1500000, mkWallet ''B'' 1000 1000000 500000]"



text \<open>A group whose winner \<open>A\<close> has an entry market cap of 0, beside the loser \<open>B\<close>.\<close>

definition zeroEntryGroup :: "WalletData list" where
  "zeroEntryGroup = [mkWallet ''A'' 1000 0 2000000, mkWallet ''B'' 1000 1000000 500000]"

text \<open>A stream with a single sell and no buy of wallet \<open>W\<close>, and an oracle that answers
  every timestamp with a sample whose price and market cap are 0.\<close>

definition onlySell :: "Transaction list" where
  "onlySell = [\<lparr> tokenTransfers = Some [mkTransfer ''W'' ''X'' 120], txTimestamp = 5 \<rparr>]"

definition zeroOracle :: "int \<Rightarrow> PriceSample option" where
  "zeroOracle t = Some \<lparr> price = Num 0, marketCap = Num 0 \<rparr>"


section \<open>Auxiliary facts\<close>

text \<open>The equations of the two loops are unfolded by hand.\<close>

declare skipSells.simps [simp del] matchSells.simps [simp del]

lemma reduce_sum_Nil: "reduce_sum f [] = Num 0"
  by (simp add: reduce_sum_def)

lemma js_eq_zero: "js_eq a (Num 0) = (a = Num 0)"
  by (auto simp: js_eq_def)

lemma walletWithPnL_fresh:
  "redistributionAmount (walletWithPnL w) = Num 0"
  "finalBalance (walletWithPnL w) = js_add (investedAmount (walletWithPnL w)) (rawPnL (walletWithPnL w))"
  by (simp_all add: walletWithPnL_def Let_def)

lemma js_add_zero_right: "js_add a (Num 0) = a"
  by (cases a) simp_all

lemma walletWithPnL_keeps:
  "investedAmount (walletWithPnL w) = investedAmount w"
  "walletId (walletWithPnL w) = walletId w"
  by (simp_all add: walletWithPnL_def Let_def)

lemma updated_amounts:
  "redistributionAmount (updateLoser m cp pool n L l) = loserAmount m cp pool n L l"
  "redistributionAmount (updateWinner T P w) = js_mul (js_neg T) (js_div (rawPnL w) P)"
  "isProfit (updateLoser m cp pool n L l) = isProfit l"
  "isProfit (updateWinner T P w) = isProfit w"
  "rawPnL (updateLoser m cp pool n L l) = rawPnL l"
  "rawPnL (updateWinner T P w) = rawPnL w"
  "investedAmount (updateLoser m cp pool n L l) = investedAmount l"
  "investedAmount (updateWinner T P w) = investedAmount w"
  by (simp_all add: updateLoser_def updateWinner_def Let_def)

lemma updated_balance:
  "finalBalance (updateLoser m cp pool n L l)
     = js_add (js_add (investedAmount l) (rawPnL l)) (loserAmount m cp pool n L l)"
  "finalBalance (updateWinner T P w)
     = js_add (js_add (investedAmount w) (rawPnL w)) (js_mul (js_neg T) (js_div (rawPnL w) P))"
  by (simp_all add: updateLoser_def updateWinner_def Let_def)

lemma calculatePnL_early:
  assumes "walletData \<noteq> []"
    and "totalProfit (map walletWithPnL walletData) = Num 0
         \<or> totalLoss (map walletWithPnL walletData) = Num 0"
  shows "calculatePnL m cp walletData = Some (map walletWithPnL walletData)"
  using assms by (auto simp: calculatePnL_def Let_def js_eq_zero)

lemma calculatePnL_redistributes:
  assumes "walletData \<noteq> []"
    and "totalProfit (map walletWithPnL walletData) \<noteq> Num 0"
    and "totalLoss (map walletWithPnL walletData) \<noteq> Num 0"
  shows "calculatePnL m cp walletData =
     Some (map (\<lambda>w. if isProfit w
                  then updateWinner
                         (reduce_sum redistributionAmount
                            (map (updateLoser m cp (poolOf walletData) (length (losersOf walletData))
                                    (totalLoss (map walletWithPnL walletData)))
                               (losersOf walletData)))
                         (totalProfit (map walletWithPnL walletData)) w
                  else updateLoser m cp (poolOf walletData) (length (losersOf walletData))
                         (totalLoss (map walletWithPnL walletData)) w)
             (map walletWithPnL walletData))"
  using assms by (simp add: calculatePnL_def Let_def js_eq_zero poolOf_def losersOf_def)

lemma losers_of_output:
  "filter (\<lambda>w. \<not> isProfit w)
     (map (\<lambda>w. if isProfit w then updateWinner T P w else updateLoser m cp pool n L w) W)
   = map (updateLoser m cp pool n L) (filter (\<lambda>w. \<not> isProfit w) W)"
  by (induction W) (simp_all add: updated_amounts)

lemma capped_balance:
  assumes "calculatePnL m cp walletData = Some out" and "w \<in> set out"
  shows "finalBalance w = js_add (js_add (investedAmount w) (rawPnL w)) (redistributionAmount w)"
proof (cases "totalProfit (map walletWithPnL walletData) = Num 0
              \<or> totalLoss (map walletWithPnL walletData) = Num 0")
  case True
  with assms(1) have "out = map walletWithPnL walletData"
    by (auto simp: calculatePnL_def Let_def js_eq_zero split: if_splits)
  with assms(2) show ?thesis
    by (auto simp: walletWithPnL_fresh js_add_zero_right)
next
  case False
  with assms(1) have ne: "walletData \<noteq> []"
    by (auto simp: calculatePnL_def)
  from False have "totalProfit (map walletWithPnL walletData) \<noteq> Num 0"
    and "totalLoss (map walletWithPnL walletData) \<noteq> Num 0" by simp_all
  from calculatePnL_redistributes [OF ne this, of m cp] assms
  show ?thesis
    by (auto simp: updated_amounts updated_balance)
qed

lemma clawback_fields:
  "isProfit (clawbackWinner w) = isProfit w"
  "isProfit (clawbackLoser T n w) = isProfit w"
  "rawPnL (clawbackWinner w) = rawPnL w"
  "rawPnL (clawbackLoser T n w) = rawPnL w"
  "investedAmount (clawbackWinner w) = investedAmount w"
  "investedAmount (clawbackLoser T n w) = investedAmount w"
  "finalBalance (clawbackWinner w) = investedAmount w"
  "redistributionAmount (clawbackWinner w) = js_neg (profitToRedistribute w)"
  "redistributionAmount (clawbackLoser T n w) = js_div T (Num (real n))"
  "finalBalance (clawbackLoser T n w)
     = js_add (js_add (investedAmount w) (rawPnL w)) (js_div T (Num (real n)))"
  by (simp_all add: clawbackWinner_def clawbackLoser_def Let_def)

lemma clawback_early:
  assumes "walletData \<noteq> []"
    and "totalProfit (map walletWithPnL walletData) = Num 0
         \<or> totalLoss (map walletWithPnL walletData) = Num 0"
  shows "calculatePnL_clawback walletData = Some (map walletWithPnL walletData)"
  using assms by (auto simp: calculatePnL_clawback_def Let_def js_eq_zero)

lemma annotates_fresh: "annotates (map walletWithPnL walletData) walletData"
  by (simp add: annotates_def walletWithPnL_keeps)

lemma annotates_map:
  assumes "\<And>w. walletId (g w) = walletId w" and "\<And>w. investedAmount (g w) = investedAmount w"
    and "\<And>w. rawPnL (g w) = rawPnL w" and "\<And>w. isProfit (g w) = isProfit w"
  shows "annotates (map g (map walletWithPnL walletData)) walletData"
  by (simp add: annotates_def assms walletWithPnL_keeps)

lemma updated_ids:
  "walletId (updateLoser m cp pool n L l) = walletId l"
  "walletId (updateWinner T P w) = walletId w"
  "walletId (clawbackWinner w) = walletId w"
  "walletId (clawbackLoser T n w) = walletId w"
  by (simp_all add: updateLoser_def updateWinner_def clawbackWinner_def clawbackLoser_def Let_def)



lemma clawback_runs:
  assumes "walletData \<noteq> []"
    and "totalProfit (map walletWithPnL walletData) \<noteq> Num 0"
    and "totalLoss (map walletWithPnL walletData) \<noteq> Num 0"
  shows "calculatePnL_clawback walletData =
     Some (map (\<lambda>w. if isProfit w then clawbackWinner w
                     else clawbackLoser (reduce_sum profitToRedistribute (winnersOf walletData))
                            (length (losersOf walletData)) w)
             (map walletWithPnL walletData))"
  using assms
  by (simp add: calculatePnL_clawback_def Let_def js_eq_zero losersOf_def winnersOf_def)

lemma profit_of_fresh:
  "profitToRedistribute (walletWithPnL x)
     = js_max (Num 0)
         (js_sub (js_add (investedAmount (walletWithPnL x)) (rawPnL (walletWithPnL x)))
            (investedAmount (walletWithPnL x)))"
  by (simp add: profitToRedistribute_def walletWithPnL_fresh(2))

lemma not_fin_mul: "\<not> fin b \<Longrightarrow> \<not> fin (js_mul a b)"
  by (cases a; cases b) (simp_all add: inf_of_sign_def)

lemma not_fin_sub_left: "\<not> fin a \<Longrightarrow> \<not> fin (js_sub a b)"
  by (cases a; cases b) (simp_all add: js_sub_def)

lemma not_fin_div_zero: "\<not> fin (js_div a (Num 0))"
  by (cases a) (simp_all add: inf_of_sign_def)

lemma not_fin_mul_left: "\<not> fin a \<Longrightarrow> \<not> fin (js_mul a (Num 100))"
  by (cases a) (simp_all add: inf_of_sign_def)

lemma calculatePnL_some:
  assumes "walletData \<noteq> []"
  shows "\<exists>out. calculatePnL m cp walletData = Some out \<and> annotates out walletData"
proof (cases "totalProfit (map walletWithPnL walletData) = Num 0
              \<or> totalLoss (map walletWithPnL walletData) = Num 0")
  case True
  from calculatePnL_early [OF assms True] annotates_fresh show ?thesis by blast
next
  case False
  then have "totalProfit (map walletWithPnL walletData) \<noteq> Num 0"
    and "totalLoss (map walletWithPnL walletData) \<noteq> Num 0" by simp_all
  note run = calculatePnL_redistributes [OF assms this, of m cp]
  have "annotates
     (map (\<lambda>w. if isProfit w
                  then updateWinner
                         (reduce_sum redistributionAmount
                            (map (updateLoser m cp (poolOf walletData) (length (losersOf walletData))
                                    (totalLoss (map walletWithPnL walletData)))
                               (losersOf walletData)))
                         (totalProfit (map walletWithPnL walletData)) w
                  else updateLoser m cp (poolOf walletData) (length (losersOf walletData))
                         (totalLoss (map walletWithPnL walletData)) w)
             (map walletWithPnL walletData)) walletData"
    by (rule annotates_map) (simp_all add: updated_amounts updated_ids)
  with run show ?thesis by blast
qed


lemma capped_cases:
  assumes ne: "walletData \<noteq> []"
  obtains (early) "totalProfit (map walletWithPnL walletData) = Num 0
                   \<or> totalLoss (map walletWithPnL walletData) = Num 0"
      "calculatePnL m cp walletData = Some (map walletWithPnL walletData)"
  | (run) T where
      "totalProfit (map walletWithPnL walletData) \<noteq> Num 0"
      "totalLoss (map walletWithPnL walletData) \<noteq> Num 0"
      "T = reduce_sum redistributionAmount
             (map (updateLoser m cp (poolOf walletData) (length (losersOf walletData))
                     (totalLoss (map walletWithPnL walletData)))
                (losersOf walletData))"
      "calculatePnL m cp walletData =
         Some (map (\<lambda>w. if isProfit w
                         then updateWinner T (totalProfit (map walletWithPnL walletData)) w
                         else updateLoser m cp (poolOf walletData) (length (losersOf walletData))
                                (totalLoss (map walletWithPnL walletData)) w)
                 (map walletWithPnL walletData))"
      "annotates
         (map (\<lambda>w. if isProfit w
                    then updateWinner T (totalProfit (map walletWithPnL walletData)) w
                    else updateLoser m cp (poolOf walletData) (length (losersOf walletData))
                           (totalLoss (map walletWithPnL walletData)) w)
            (map walletWithPnL walletData)) walletData"
      "reduce_sum redistributionAmount
         (filter (\<lambda>l. \<not> isProfit l)
            (map (\<lambda>w. if isProfit w
                    then updateWinner T (totalProfit (map walletWithPnL walletData)) w
                    else updateLoser m cp (poolOf walletData) (length (losersOf walletData))
                           (totalLoss (map walletWithPnL walletData)) w)
               (map walletWithPnL walletData))) = T"
proof (cases "totalProfit (map walletWithPnL walletData) = Num 0
              \<or> totalLoss (map walletWithPnL walletData) = Num 0")
  case True
  show thesis by (rule early [OF True calculatePnL_early [OF ne True]])
next
  case False
  then have P0: "totalProfit (map walletWithPnL walletData) \<noteq> Num 0"
    and L0: "totalLoss (map walletWithPnL walletData) \<noteq> Num 0" by simp_all
  define T where "T = reduce_sum redistributionAmount
             (map (updateLoser m cp (poolOf walletData) (length (losersOf walletData))
                     (totalLoss (map walletWithPnL walletData)))
                (losersOf walletData))"
  have out: "calculatePnL m cp walletData =
         Some (map (\<lambda>w. if isProfit w
                         then updateWinner T (totalProfit (map walletWithPnL walletData)) w
                         else updateLoser m cp (poolOf walletData) (length (losersOf walletData))
                                (totalLoss (map walletWithPnL walletData)) w)
                 (map walletWithPnL walletData))"
    unfolding T_def by (rule calculatePnL_redistributes [OF ne P0 L0])
  have ann: "annotates
         (map (\<lambda>w. if isProfit w
                    then updateWinner T (totalProfit (map walletWithPnL walletData)) w
                    else updateLoser m cp (poolOf walletData) (length (losersOf walletData))
                           (totalLoss (map walletWithPnL walletData)) w)
            (map walletWithPnL walletData)) walletData"
    by (rule annotates_map) (simp_all add: updated_amounts updated_ids)
  have ls: "reduce_sum redistributionAmount
         (filter (\<lambda>l. \<not> isProfit l)
            (map (\<lambda>w. if isProfit w
                    then updateWinner T (totalProfit (map walletWithPnL walletData)) w
                    else updateLoser m cp (poolOf walletData) (length (losersOf walletData))
                           (totalLoss (map walletWithPnL walletData)) w)
               (map walletWithPnL walletData))) = T"
    unfolding losers_of_output losersOf_def [symmetric] T_def ..
  show thesis by (rule run [OF P0 L0 T_def out ann ls])
qed

lemma exampleGroup_facts:
  "exampleGroup \<noteq> []"
  "map walletWithPnL exampleGroup =
     [\<lparr> walletId = ''A'', walletAddress = ''A'', tokenName = ''T'', investedAmount = Num 1000,
        entryMarketCap = Num 1000000, exitMarketCap = Num 1500000, rawPnL = Num 500,
        pnLPercentage = Num 50, redistributionAmount = Num 0, finalBalance = Num 1500,
        isProfit = True \<rparr>,
      \<lparr> walletId = ''B'', walletAddress = ''B'', tokenName = ''T'', investedAmount = Num 1000,
        entryMarketCap = Num 1000000, exitMarketCap = Num 500000, rawPnL = Num (- 500),
        pnLPercentage = Num (- 50), redistributionAmount = Num 0, finalBalance = Num 500,
        isProfit = False \<rparr>]"
  by (simp_all add: exampleGroup_def mkWallet_def walletWithPnL_def Let_def js_sub_def)

lemma exampleGroup_totals:
  "totalProfit (map walletWithPnL exampleGroup) = Num 500"
  "totalLoss (map walletWithPnL exampleGroup) = Num 500"
  "poolOf exampleGroup = Num 500"
  "winnersOf exampleGroup \<noteq> []"
  "losersOf exampleGroup \<noteq> []"
  by (simp_all add: exampleGroup_facts(2) totalProfit_def totalLoss_def reduce_sum_def poolOf_def
        winnersOf_def losersOf_def)



lemma zeroEntryGroup_records:
  "map walletWithPnL zeroEntryGroup =
     [\<lparr> walletId = ''A'', walletAddress = ''A'', tokenName = ''T'', investedAmount = Num 1000,
        entryMarketCap = Num 0, exitMarketCap = Num 2000000, rawPnL = PosInf,
        pnLPercentage = PosInf, redistributionAmount = Num 0, finalBalance = PosInf,
        isProfit = True \<rparr>,
      \<lparr> walletId = ''B'', walletAddress = ''B'', tokenName = ''T'', investedAmount = Num 1000,
        entryMarketCap = Num 1000000, exitMarketCap = Num 500000, rawPnL = Num (- 500),
        pnLPercentage = Num (- 50), redistributionAmount = Num 0, finalBalance = Num 500,
        isProfit = False \<rparr>]"
  by (simp add: zeroEntryGroup_def mkWallet_def walletWithPnL_def Let_def js_sub_def
        inf_of_sign_def)

lemma zeroEntryGroup_nonempty: "zeroEntryGroup \<noteq> []"
  by (simp add: zeroEntryGroup_def)


lemma exampleGroup_runs:
  "totalProfit (map walletWithPnL exampleGroup) \<noteq> Num 0"
  "totalLoss (map walletWithPnL exampleGroup) \<noteq> Num 0"
  by (simp_all add: exampleGroup_totals)

lemma example3_buys:
  "collectBuys ''W'' ''M'' example3
     = [\<lparr> amount = Num 100, timestamp = 0 \<rparr>, \<lparr> amount = Num 50, timestamp = 10 \<rparr>]"
  by (simp add: collectBuys_def example3_def mkTransfer_def tradeOf_def pow10_def)

lemma example3_sells:
  "collectSells ''W'' ''M'' example3 = [\<lparr> amount = Num 120, timestamp = 5 \<rparr>]"
  by (simp add: collectSells_def example3_def mkTransfer_def tradeOf_def pow10_def)

lemma collectBuys_empty_iff:
  "collectBuys walletAddr contractAddress transactions = [] \<longleftrightarrow>
     (\<forall>tx \<in> set transactions. \<forall>transfers. tokenTransfers tx = Some transfers \<longrightarrow>
        (\<forall>transfer \<in> set transfers.
           \<not> (mint transfer = contractAddress \<and> toUserAccount transfer = walletAddr)))"
  by (auto simp: collectBuys_def filter_empty_conv split: option.splits)

lemma priceOrZero_zeroToMiss: "priceOrZero (zeroToMiss priceAt t) = priceOrZero (priceAt t)"
  by (simp add: priceOrZero_def zeroToMiss_def truthy_def split: option.splits)

lemma marketCapOr_zeroToMiss:
  "marketCapOr current (zeroToMiss priceAt t) = marketCapOr current (priceAt t)"
  by (simp add: marketCapOr_def zeroToMiss_def truthy_def split: option.splits)

lemma processBuy_zeroToMiss: "processBuy (zeroToMiss priceAt) = processBuy priceAt"
  by (intro ext) (simp add: processBuy_def Let_def priceOrZero_zeroToMiss split: prod.splits)

lemma fetchWalletData_zeroToMiss:
  "fetchWalletData walletAddr contractAddress tokenData now (zeroToMiss priceAt) transactions
     = fetchWalletData walletAddr contractAddress tokenData now priceAt transactions"
  by (simp add: fetchWalletData_def Let_def processBuy_zeroToMiss marketCapOr_zeroToMiss)

lemma fin_ops:
  "fin a \<Longrightarrow> fin b \<Longrightarrow> fin (js_min a b)"
  "fin a \<Longrightarrow> fin b \<Longrightarrow> fin (js_sub a b)"
  by (cases a; cases b; simp add: js_sub_def)+

lemma matchSells_fin:
  "fin buyAmount \<Longrightarrow> \<forall>x \<in> set sells. fin (amount x)
     \<Longrightarrow> fin (fst (matchSells buyAmount sells sellIndex))"
proof (induction buyAmount sells sellIndex rule: matchSells.induct)
  case (1 buyAmount sells sellIndex)
  show ?case
  proof (cases "js_gt buyAmount (Num 0) \<and> sellIndex < length sells")
    case False
    then have "matchSells buyAmount sells sellIndex = (buyAmount, sells, sellIndex)"
      by (subst matchSells.simps) auto
    with "1.prems"(1) show ?thesis by simp
  next
    case True
    define sell where "sell = sells ! sellIndex"
    define sellAmount where "sellAmount = js_min buyAmount (amount sell)"
    define buyAmount' where "buyAmount' = js_sub buyAmount sellAmount"
    define sells' where "sells' = sells[sellIndex := sell\<lparr> amount := js_sub (amount sell) sellAmount \<rparr>]"
    define sellIndex' where "sellIndex' = (if js_eq (amount (sells' ! sellIndex)) (Num 0)
                           then sellIndex + 1 else sellIndex)"
    from True "1.prems"(2) have fs: "fin (amount sell)" by (simp add: sell_def)
    with "1.prems"(1) have fm: "fin sellAmount" by (simp add: sellAmount_def fin_ops)
    with "1.prems"(1) have fb: "fin buyAmount'" by (simp add: buyAmount'_def fin_ops)
    from fs fm have "fin (amount (sell\<lparr> amount := js_sub (amount sell) sellAmount \<rparr>))"
      by (simp add: fin_ops)
    with "1.prems"(2) have fl: "\<forall>x \<in> set sells'. fin (amount x)"
      unfolding sells'_def by (auto dest!: set_update_subset_insert [THEN subsetD])
    have "fin (fst (matchSells buyAmount' sells' sellIndex'))"
      by (rule "1.IH" [OF True sell_def sellAmount_def buyAmount'_def sells'_def sellIndex'_def fb fl])
    moreover have "matchSells buyAmount sells sellIndex = matchSells buyAmount' sells' sellIndex'"
      using True
      by (subst matchSells.simps)
         (simp add: Let_def sell_def sellAmount_def buyAmount'_def sells'_def sellIndex'_def)
    ultimately show ?thesis by simp
  qed
qed

lemma zero_price_contribution:
  assumes "priceAt (timestamp buy) = Some d" and "price d = Num 0"
    and "fin (amount buy)" and "\<forall>x \<in> set (stSells st). fin (amount x)"
  shows "stInvestedAmount (processBuy priceAt st buy) = stInvestedAmount st"
    and "processBuy priceAt st buy = processBuy (priceAt(timestamp buy := None)) st buy"
proof -
  let ?i = "skipSells (stSells st) (timestamp buy) (stSellIndex st)"
  obtain b s i where m: "matchSells (amount buy) (stSells st) ?i = (b, s, i)"
    by (cases "matchSells (amount buy) (stSells st) ?i") auto
  from matchSells_fin [OF assms(3,4), of ?i] m have "fin b" by simp
  then obtain x where x: "b = Num x" by (cases b) auto
  from assms(1,2) have p: "priceOrZero (priceAt (timestamp buy)) = Num 0"
    by (simp add: priceOrZero_def truthy_def)
  show "stInvestedAmount (processBuy priceAt st buy) = stInvestedAmount st"
    by (simp add: processBuy_def Let_def m p x js_add_zero_right)
  have p': "priceOrZero ((priceAt(timestamp buy := None)) (timestamp buy)) = Num 0"
    by (simp add: priceOrZero_def)
  show "processBuy priceAt st buy = processBuy (priceAt(timestamp buy := None)) st buy"
    by (simp only: processBuy_def Let_def m p p' split_conv)
qed

lemma example3_first_buy:
  "processBuy priceAt
     \<lparr> stSells = [\<lparr> amount = Num 120, timestamp = 5 \<rparr>], stSellIndex = 0,
       stInvestedAmount = Num 0, stNetTokens = Num 0 \<rparr>
     \<lparr> amount = Num 100, timestamp = 0 \<rparr>
   = \<lparr> stSells = [\<lparr> amount = Num 20, timestamp = 5 \<rparr>], stSellIndex = 0,
       stInvestedAmount = Num 0, stNetTokens = Num 0 \<rparr>"
  by (simp add: processBuy_def Let_def js_sub_def js_eq_def skipSells.simps matchSells.simps)

lemma example3_second_buy:
  "processBuy priceAt
     \<lparr> stSells = [\<lparr> amount = Num 20, timestamp = 5 \<rparr>], stSellIndex = 0,
       stInvestedAmount = Num 0, stNetTokens = Num 0 \<rparr>
     \<lparr> amount = Num 50, timestamp = 10 \<rparr>
   = \<lparr> stSells = [\<lparr> amount = Num 20, timestamp = 5 \<rparr>], stSellIndex = 1,
       stInvestedAmount = js_add (Num 0) (js_mul (Num 50) (priceOrZero (priceAt 10))),
       stNetTokens = Num 50 \<rparr>"
  by (simp add: processBuy_def Let_def js_sub_def js_eq_def skipSells.simps matchSells.simps)


section \<open>The claims about the PnL calculator\<close>

text \<open>
  C2 fails on the code: a wallet with \<open>entryMarketCap = 0\<close> is given an infinite \<open>rawPnL\<close>
  and \<open>pnLPercentage\<close> and is classified as a winner; no error is reported.
\<close>

theorem zero_entry_market_cap_counterexample:
  "entryMarketCap (mkWallet ''A'' 1000 0 2000000) = Num 0
   \<and> computePnL (mkWallet ''A'' 1000 0 2000000) \<noteq> Inl DivisionByZero
   \<and> rawPnL (walletWithPnL (mkWallet ''A'' 1000 0 2000000)) = PosInf
   \<and> pnLPercentage (walletWithPnL (mkWallet ''A'' 1000 0 2000000)) = PosInf
   \<and> isProfit (walletWithPnL (mkWallet ''A'' 1000 0 2000000))"
  by (simp add: computePnL_def walletWithPnL_def mkWallet_def Let_def js_sub_def inf_of_sign_def)

text \<open>
  C2, as amended. The PnL step never fails and reports no division by zero: on every
  wallet it returns the record whose \<open>rawPnL\<close> is
  \<open>investedAmount * (exit / entry) - investedAmount\<close> and whose \<open>pnLPercentage\<close> is
  \<open>(exit / entry - 1) * 100\<close>. With \<open>entryMarketCap = 0\<close> the quotient is an infinity or
  \<^verbatim>\<open>NaN\<close>, and neither \<open>rawPnL\<close> nor \<open>pnLPercentage\<close> is a finite number.
\<close>

theorem pnl_step_has_no_error:
  "computePnL wallet = Inr (walletWithPnL wallet)
   \<and> rawPnL (walletWithPnL wallet)
       = js_sub (js_mul (investedAmount wallet)
                   (js_div (exitMarketCap wallet) (entryMarketCap wallet)))
           (investedAmount wallet)
   \<and> pnLPercentage (walletWithPnL wallet)
       = js_mul (js_sub (js_div (exitMarketCap wallet) (entryMarketCap wallet)) (Num 1)) (Num 100)
   \<and> (entryMarketCap wallet = Num 0 \<longrightarrow>
        \<not> fin (rawPnL (walletWithPnL wallet)) \<and> \<not> fin (pnLPercentage (walletWithPnL wallet)))"
proof (intro conjI impI)
  show "computePnL wallet = Inr (walletWithPnL wallet)" by (simp add: computePnL_def)
  show raw: "rawPnL (walletWithPnL wallet)
       = js_sub (js_mul (investedAmount wallet)
                   (js_div (exitMarketCap wallet) (entryMarketCap wallet)))
           (investedAmount wallet)"
    by (simp add: walletWithPnL_def Let_def)
  show pct: "pnLPercentage (walletWithPnL wallet)
       = js_mul (js_sub (js_div (exitMarketCap wallet) (entryMarketCap wallet)) (Num 1)) (Num 100)"
    by (simp add: walletWithPnL_def Let_def)
  assume z: "entryMarketCap wallet = Num 0"
  have q: "\<not> fin (js_div (exitMarketCap wallet) (entryMarketCap wallet))"
    unfolding z by (rule not_fin_div_zero)
  show "\<not> fin (rawPnL (walletWithPnL wallet))"
    unfolding raw by (intro not_fin_sub_left not_fin_mul q)
  show "\<not> fin (pnLPercentage (walletWithPnL wallet))"
    unfolding pct by (intro not_fin_mul_left not_fin_sub_left q)
qed

theorem pnl_step_has_no_error_witness:
  "entryMarketCap (mkWallet ''A'' 1000 0 2000000) = Num 0
   \<and> computePnL (mkWallet ''A'' 1000 0 2000000)
       = Inr (walletWithPnL (mkWallet ''A'' 1000 0 2000000))
   \<and> \<not> fin (rawPnL (walletWithPnL (mkWallet ''A'' 1000 0 2000000)))
   \<and> \<not> fin (pnLPercentage (walletWithPnL (mkWallet ''A'' 1000 0 2000000)))"
proof -
  have z: "entryMarketCap (mkWallet ''A'' 1000 0 2000000) = Num 0"
    by (simp add: mkWallet_def)
  from pnl_step_has_no_error [of "mkWallet ''A'' 1000 0 2000000"] z show ?thesis by blast
qed




text \<open>
  C4 fails on the code under \<open>custom\<close>: with an empty percentage map the loser of the
  example group receives nothing, and the winner, whose \<open>rawPnL\<close> is 500, pays nothing,
  where \<open>-pool * (rawPnL / totalProfit)\<close> is \<open>-500\<close>.
\<close>

theorem winners_counterexample:
  "winnersOf exampleGroup \<noteq> [] \<and> losersOf exampleGroup \<noteq> []
   \<and> map_option (map redistributionAmount) (calculatePnL ''custom'' Map.empty exampleGroup)
       = Some [Num 0, Num 0]
   \<and> map_option (map isProfit) (calculatePnL ''custom'' Map.empty exampleGroup)
       = Some [True, False]
   \<and> map_option (map rawPnL) (calculatePnL ''custom'' Map.empty exampleGroup)
       = Some [Num 500, Num (- 500)]
   \<and> js_mul (js_neg (poolOf exampleGroup))
        (js_div (Num 500) (totalProfit (map walletWithPnL exampleGroup))) = Num (- 500)"
  by (simp add: calculatePnL_def Let_def exampleGroup_facts js_eq_def totalProfit_def
        totalLoss_def poolOf_def winnersOf_def losersOf_def
        reduce_sum_def updateLoser_def updateWinner_def loserAmount_def customPercentage_def)

text \<open>
  C4, as amended. For every non-empty group, mode and percentage map: when
  \<open>totalProfit\<close> and \<open>totalLoss\<close> are both non-zero, every winner's amount is
  \<open>-totalRedistributionOut * (rawPnL / totalProfit)\<close>, where \<open>totalRedistributionOut\<close> is the
  sum of the amounts given to the losers, so that the winners' side follows whatever the
  losers received; when one of the totals is 0 every amount is 0.
\<close>

theorem winners_pay_share_of_losers_total:
  assumes ne: "walletData \<noteq> []"
  shows "\<exists>out. calculatePnL redistributionMode customPercentages walletData = Some out
           \<and> annotates out walletData
           \<and> (totalProfit (map walletWithPnL walletData) = Num 0
               \<or> totalLoss (map walletWithPnL walletData) = Num 0 \<longrightarrow>
                 (\<forall>w \<in> set out. redistributionAmount w = Num 0))
           \<and> (totalProfit (map walletWithPnL walletData) \<noteq> Num 0
               \<and> totalLoss (map walletWithPnL walletData) \<noteq> Num 0 \<longrightarrow>
                 (\<forall>w \<in> set out. isProfit w \<longrightarrow>
                    redistributionAmount w
                      = js_mul (js_neg (reduce_sum redistributionAmount
                                          (filter (\<lambda>l. \<not> isProfit l) out)))
                          (js_div (rawPnL w) (totalProfit (map walletWithPnL walletData)))))"
  using ne
proof (cases rule: capped_cases [where m = redistributionMode and cp = customPercentages])
  case early
  have "\<forall>w \<in> set (map walletWithPnL walletData). redistributionAmount w = Num 0"
    by (simp add: walletWithPnL_fresh)
  with early annotates_fresh [of walletData] show ?thesis by auto
next
  case (run T)
  have "\<forall>w \<in> set (map (\<lambda>w. if isProfit w
                    then updateWinner T (totalProfit (map walletWithPnL walletData)) w
                    else updateLoser redistributionMode customPercentages (poolOf walletData)
                           (length (losersOf walletData))
                           (totalLoss (map walletWithPnL walletData)) w)
                (map walletWithPnL walletData)).
          isProfit w \<longrightarrow>
            redistributionAmount w
              = js_mul (js_neg T) (js_div (rawPnL w) (totalProfit (map walletWithPnL walletData)))"
    by (auto simp: updated_amounts)
  with run(1,2,4,5,6) show ?thesis by auto
qed

theorem winners_pay_share_witness:
  "exampleGroup \<noteq> []
   \<and> totalProfit (map walletWithPnL exampleGroup) \<noteq> Num 0
   \<and> totalLoss (map walletWithPnL exampleGroup) \<noteq> Num 0
   \<and> (\<exists>out. calculatePnL ''custom'' [''B'' \<mapsto> Num 40] exampleGroup = Some out
          \<and> annotates out exampleGroup
          \<and> (\<forall>w \<in> set out. isProfit w \<longrightarrow>
                redistributionAmount w
                  = js_mul (js_neg (reduce_sum redistributionAmount
                                      (filter (\<lambda>l. \<not> isProfit l) out)))
                      (js_div (rawPnL w) (totalProfit (map walletWithPnL exampleGroup)))))"
  using winners_pay_share_of_losers_total [OF exampleGroup_facts(1), of "''custom''" "[''B'' \<mapsto> Num 40]"]
    exampleGroup_facts(1) exampleGroup_runs
  by blast




text \<open>
  C6. When the winner partition or the loser partition of a non-empty group is empty,
  no redistribution is attempted, whatever the mode and the percentage map: the list
  set is the list of the fresh records, each with \<open>redistributionAmount = 0\<close> and
  \<open>finalBalance = investedAmount + rawPnL\<close>.
\<close>

theorem no_redistribution_when_partition_empty:
  assumes "walletData \<noteq> []"
    and "filter isProfit (map walletWithPnL walletData) = []
         \<or> filter (\<lambda>w. \<not> isProfit w) (map walletWithPnL walletData) = []"
  shows "\<exists>out. calculatePnL redistributionMode customPercentages walletData = Some out
           \<and> out = map walletWithPnL walletData
           \<and> (\<forall>w \<in> set out. redistributionAmount w = Num 0
                 \<and> finalBalance w = js_add (investedAmount w) (rawPnL w))"
proof -
  from assms(2) have gate:
    "totalProfit (map walletWithPnL walletData) = Num 0
     \<or> totalLoss (map walletWithPnL walletData) = Num 0"
    by (auto simp: totalProfit_def totalLoss_def reduce_sum_Nil)
  have fresh: "\<forall>w \<in> set (map walletWithPnL walletData). redistributionAmount w = Num 0
                 \<and> finalBalance w = js_add (investedAmount w) (rawPnL w)"
    by (auto simp: walletWithPnL_fresh)
  from assms(1) gate have
    "calculatePnL redistributionMode customPercentages walletData
       = Some (map walletWithPnL walletData)"
    by (auto simp: calculatePnL_def Let_def js_eq_zero)
  with fresh show ?thesis by blast
qed

theorem no_redistribution_when_partition_empty_witness:
  "[mkWallet ''A'' 1000 1000000 2000000] \<noteq> []
   \<and> filter (\<lambda>w. \<not> isProfit w) (map walletWithPnL [mkWallet ''A'' 1000 1000000 2000000]) = []
   \<and> (\<exists>out. calculatePnL ''proportional'' Map.empty [mkWallet ''A'' 1000 1000000 2000000] = Some out
          \<and> map redistributionAmount out = [Num 0] \<and> map finalBalance out = [Num 2000])"
proof -
  have h: "filter (\<lambda>w. \<not> isProfit w) (map walletWithPnL [mkWallet ''A'' 1000 1000000 2000000]) = []"
    by (simp add: walletWithPnL_def mkWallet_def Let_def js_sub_def)
  from no_redistribution_when_partition_empty
         [of "[mkWallet ''A'' 1000 1000000 2000000]" "''proportional''" Map.empty] h
  show ?thesis
    by (auto simp: walletWithPnL_def mkWallet_def Let_def js_sub_def)
qed

text \<open>
  C7 fails on the code in the full-clawback version: the winner with
  \<open>entryMarketCap = 0\<close> ends with \<open>finalBalance = 1000\<close>, while its invested amount 1000,
  its \<open>rawPnL\<close> \<^verbatim>\<open>Infinity\<close> and its amount \<^verbatim>\<open>-Infinity\<close> add up to \<^verbatim>\<open>NaN\<close>.
\<close>

theorem clawback_balance_counterexample:
  "map_option (map finalBalance) (calculatePnL_clawback zeroEntryGroup)
     = Some [Num 1000, PosInf]
   \<and> map_option (map investedAmount) (calculatePnL_clawback zeroEntryGroup)
     = Some [Num 1000, Num 1000]
   \<and> map_option (map rawPnL) (calculatePnL_clawback zeroEntryGroup)
     = Some [PosInf, Num (- 500)]
   \<and> map_option (map redistributionAmount) (calculatePnL_clawback zeroEntryGroup)
     = Some [NegInf, PosInf]
   \<and> js_add (js_add (Num 1000) PosInf) NegInf = NaN"
  by (simp add: calculatePnL_clawback_def Let_def zeroEntryGroup_records zeroEntryGroup_nonempty
        js_eq_def totalProfit_def totalLoss_def reduce_sum_def clawbackWinner_def
        clawbackLoser_def profitToRedistribute_def js_sub_def)

text \<open>
  C7, as amended. In the pool-capped version every record of the list that is set has
  \<open>finalBalance\<close> equal to the value of \<open>investedAmount + rawPnL + redistributionAmount\<close>,
  for every non-empty group, mode and percentage map, with or without a redistribution.
  In the full-clawback version the same holds of every loser's record and of every
  record when no redistribution is attempted; a winner's record of a redistribution has
  \<open>finalBalance = investedAmount\<close> and
  \<open>redistributionAmount = -max(0, (investedAmount + rawPnL) - investedAmount)\<close>.
\<close>

theorem final_balance_by_version:
  assumes ne: "walletData \<noteq> []"
  shows "(\<exists>out. calculatePnL redistributionMode customPercentages walletData = Some out
            \<and> annotates out walletData
            \<and> (\<forall>w \<in> set out.
                  finalBalance w
                    = js_add (js_add (investedAmount w) (rawPnL w)) (redistributionAmount w)))
       \<and> (\<exists>out. calculatePnL_clawback walletData = Some out
            \<and> annotates out walletData
            \<and> (\<forall>w \<in> set out. \<not> isProfit w \<longrightarrow>
                  finalBalance w
                    = js_add (js_add (investedAmount w) (rawPnL w)) (redistributionAmount w))
            \<and> (totalProfit (map walletWithPnL walletData) = Num 0
                \<or> totalLoss (map walletWithPnL walletData) = Num 0 \<longrightarrow>
                  (\<forall>w \<in> set out.
                     finalBalance w
                       = js_add (js_add (investedAmount w) (rawPnL w)) (redistributionAmount w)))
            \<and> (totalProfit (map walletWithPnL walletData) \<noteq> Num 0
                \<and> totalLoss (map walletWithPnL walletData) \<noteq> Num 0 \<longrightarrow>
                  (\<forall>w \<in> set out. isProfit w \<longrightarrow>
                     finalBalance w = investedAmount w
                     \<and> redistributionAmount w
                         = js_neg (js_max (Num 0)
                             (js_sub (js_add (investedAmount w) (rawPnL w)) (investedAmount w))))))"
proof (intro conjI)
  from calculatePnL_some [OF ne, of redistributionMode customPercentages]
  obtain out where out: "calculatePnL redistributionMode customPercentages walletData = Some out"
    and ann: "annotates out walletData" by blast
  with capped_balance [OF out] show "\<exists>out. calculatePnL redistributionMode customPercentages walletData = Some out
            \<and> annotates out walletData
            \<and> (\<forall>w \<in> set out.
                  finalBalance w
                    = js_add (js_add (investedAmount w) (rawPnL w)) (redistributionAmount w))"
    by blast
next
  let ?W = "map walletWithPnL walletData"
  let ?T = "reduce_sum profitToRedistribute (winnersOf walletData)"
  let ?n = "length (losersOf walletData)"
  let ?g = "\<lambda>w. if isProfit w then clawbackWinner w else clawbackLoser ?T ?n w"
  show "\<exists>out. calculatePnL_clawback walletData = Some out
            \<and> annotates out walletData
            \<and> (\<forall>w \<in> set out. \<not> isProfit w \<longrightarrow>
                  finalBalance w
                    = js_add (js_add (investedAmount w) (rawPnL w)) (redistributionAmount w))
            \<and> (totalProfit ?W = Num 0 \<or> totalLoss ?W = Num 0 \<longrightarrow>
                  (\<forall>w \<in> set out.
                     finalBalance w
                       = js_add (js_add (investedAmount w) (rawPnL w)) (redistributionAmount w)))
            \<and> (totalProfit ?W \<noteq> Num 0 \<and> totalLoss ?W \<noteq> Num 0 \<longrightarrow>
                  (\<forall>w \<in> set out. isProfit w \<longrightarrow>
                     finalBalance w = investedAmount w
                     \<and> redistributionAmount w
                         = js_neg (js_max (Num 0)
                             (js_sub (js_add (investedAmount w) (rawPnL w)) (investedAmount w)))))"
  proof (cases "totalProfit ?W = Num 0 \<or> totalLoss ?W = Num 0")
    case True
    have inv: "\<forall>w \<in> set ?W.
                 finalBalance w
                   = js_add (js_add (investedAmount w) (rawPnL w)) (redistributionAmount w)"
      by (auto simp: walletWithPnL_fresh js_add_zero_right)
    from clawback_early [OF ne True] annotates_fresh [of walletData] inv True
    show ?thesis by auto
  next
    case False
    then have P0: "totalProfit ?W \<noteq> Num 0" and L0: "totalLoss ?W \<noteq> Num 0" by simp_all
    have out: "calculatePnL_clawback walletData = Some (map ?g ?W)"
      using ne P0 L0 by (rule clawback_runs)
    have ann: "annotates (map ?g ?W) walletData"
      by (rule annotates_map) (simp_all add: clawback_fields updated_ids)
    have los: "\<forall>w \<in> set (map ?g ?W). \<not> isProfit w \<longrightarrow>
                 finalBalance w
                   = js_add (js_add (investedAmount w) (rawPnL w)) (redistributionAmount w)"
      by (auto simp: clawback_fields)
    have win: "\<forall>w \<in> set (map ?g ?W). isProfit w \<longrightarrow>
                 finalBalance w = investedAmount w
                 \<and> redistributionAmount w
                     = js_neg (js_max (Num 0)
                                (js_sub (js_add (investedAmount w) (rawPnL w)) (investedAmount w)))"
      by (auto simp: clawback_fields profit_of_fresh walletWithPnL_keeps)
    from out ann los win False show ?thesis by blast
  qed
qed

theorem final_balance_by_version_witness:
  "exampleGroup \<noteq> []
   \<and> (\<exists>out. calculatePnL ''proportional'' Map.empty exampleGroup = Some out
          \<and> annotates out exampleGroup
          \<and> (\<forall>w \<in> set out.
                finalBalance w
                  = js_add (js_add (investedAmount w) (rawPnL w)) (redistributionAmount w)))
   \<and> totalProfit (map walletWithPnL exampleGroup) \<noteq> Num 0
   \<and> totalLoss (map walletWithPnL exampleGroup) \<noteq> Num 0
   \<and> (\<exists>out. calculatePnL_clawback exampleGroup = Some out
          \<and> annotates out exampleGroup
          \<and> (\<forall>w \<in> set out. isProfit w \<longrightarrow> finalBalance w = investedAmount w))"
  using final_balance_by_version [OF exampleGroup_facts(1), of "''proportional''" Map.empty]
    exampleGroup_facts(1) exampleGroup_runs
  by blast

text \<open>
  C8. In the full-clawback version, for a non-empty group whose \<open>totalProfit\<close> and
  \<open>totalLoss\<close> are both non-zero (so that it has a winner and a loser), the list that is
  set annotates the group; every winner ends with \<open>finalBalance = investedAmount\<close> and its
  amount is minus its profit above the invested amount,
  \<open>max(0, (investedAmount + rawPnL) - investedAmount)\<close>, whatever the total loss; every loser
  receives the sum of those profits divided by the number of losers.
\<close>

theorem clawback_winners_break_even:
  assumes ne: "walletData \<noteq> []"
    and P0: "totalProfit (map walletWithPnL walletData) \<noteq> Num 0"
    and L0: "totalLoss (map walletWithPnL walletData) \<noteq> Num 0"
  shows "\<exists>out. calculatePnL_clawback walletData = Some out
           \<and> annotates out walletData
           \<and> winnersOf walletData \<noteq> [] \<and> losersOf walletData \<noteq> []
           \<and> (\<forall>w \<in> set out. isProfit w \<longrightarrow>
                 finalBalance w = investedAmount w
                 \<and> redistributionAmount w
                     = js_neg (js_max (Num 0)
                                (js_sub (js_add (investedAmount w) (rawPnL w)) (investedAmount w))))
           \<and> (\<forall>w \<in> set out. \<not> isProfit w \<longrightarrow>
                 redistributionAmount w
                   = js_div (reduce_sum profitToRedistribute (winnersOf walletData))
                       (Num (real (length (losersOf walletData))))
                 \<and> finalBalance w
                   = js_add (js_add (investedAmount w) (rawPnL w)) (redistributionAmount w))"
proof -
  let ?W = "map walletWithPnL walletData"
  let ?T = "reduce_sum profitToRedistribute (winnersOf walletData)"
  let ?n = "length (losersOf walletData)"
  let ?g = "\<lambda>w. if isProfit w then clawbackWinner w else clawbackLoser ?T ?n w"
  have wne: "winnersOf walletData \<noteq> []"
    using P0 by (auto simp: winnersOf_def totalProfit_def reduce_sum_Nil)
  have lne: "losersOf walletData \<noteq> []"
    using L0 by (auto simp: losersOf_def totalLoss_def reduce_sum_Nil)
  have out: "calculatePnL_clawback walletData = Some (map ?g ?W)"
    using ne P0 L0 by (rule clawback_runs)
  have ann: "annotates (map ?g ?W) walletData"
    by (rule annotates_map) (simp_all add: clawback_fields updated_ids)
  have win: "\<forall>w \<in> set (map ?g ?W). isProfit w \<longrightarrow>
                 finalBalance w = investedAmount w
                 \<and> redistributionAmount w
                     = js_neg (js_max (Num 0)
                                (js_sub (js_add (investedAmount w) (rawPnL w)) (investedAmount w)))"
    by (auto simp: clawback_fields profit_of_fresh walletWithPnL_keeps)
  have los: "\<forall>w \<in> set (map ?g ?W). \<not> isProfit w \<longrightarrow>
                 redistributionAmount w = js_div ?T (Num (real ?n))
                 \<and> finalBalance w
                   = js_add (js_add (investedAmount w) (rawPnL w)) (redistributionAmount w)"
    by (auto simp: clawback_fields)
  from out ann wne lne win los show ?thesis by blast
qed

theorem clawback_winners_break_even_witness:
  "exampleGroup \<noteq> []
   \<and> totalProfit (map walletWithPnL exampleGroup) \<noteq> Num 0
   \<and> totalLoss (map walletWithPnL exampleGroup) \<noteq> Num 0
   \<and> (\<exists>out. calculatePnL_clawback exampleGroup = Some out
          \<and> annotates out exampleGroup
          \<and> (\<forall>w \<in> set out. isProfit w \<longrightarrow> finalBalance w = investedAmount w)
          \<and> (\<forall>w \<in> set out. \<not> isProfit w \<longrightarrow> redistributionAmount w = Num 500))"
proof -
  have d: "js_div (reduce_sum profitToRedistribute (winnersOf exampleGroup))
             (Num (real (length (losersOf exampleGroup)))) = Num 500"
    by (simp add: winnersOf_def losersOf_def exampleGroup_facts(2) reduce_sum_def
          profitToRedistribute_def js_sub_def)
  from clawback_winners_break_even [OF exampleGroup_facts(1) exampleGroup_runs]
    exampleGroup_facts(1) exampleGroup_runs
  show ?thesis unfolding d by blast
qed


section \<open>The claims about position reconstruction\<close>

text \<open>
  C1 fails on the code. On the third example, with an oracle that prices every
  timestamp at 2, the invested amount is 100, that is 50 units at price 2, and not
  30 units at price 2.
\<close>

theorem example3_counterexample:
  "fetchWalletData ''W'' ''M'' tokenT 99 priceTwo example3
     = Inr \<lparr> posInvestedAmount = Num 100, posEntryMarketCap = Num 1000,
             posExitMarketCap = Num 1000 \<rparr>
   \<and> priceTwo 10 = Some \<lparr> price = Num 2, marketCap = Num 1000 \<rparr>
   \<and> Num 100 \<noteq> js_mul (Num 30) (Num 2)"
  by (simp add: fetchWalletData_def example3_buys example3_sells Let_def
        example3_first_buy example3_second_buy
        priceOrZero_def marketCapOr_def priceTwo_def truthy_def tokenT_def)

text \<open>
  C1, as amended. On buys of 100 at time 0 and 50 at time 10 and one sell of 120 at time
  5, the first buy is consumed in full (\<open>min(100, 120) = 100\<close>) and leaves 20 units
  on the sell. When the second buy is processed the sell cursor first passes every sell
  whose timestamp is at most the buy's: the sell at time 5 is skipped, nothing is matched
  against the second buy, and its full 50 units are priced at the price of time 10
  (0 on a miss or a zero price). The invested amount is \<open>0 + 50 * price\<close>.
\<close>

theorem example3_position:
  "fetchWalletData ''W'' ''M'' tokenData now priceAt example3
     = Inr \<lparr> posInvestedAmount = js_add (Num 0) (js_mul (Num 50) (priceOrZero (priceAt 10))),
             posEntryMarketCap = marketCapOr (currentMarketCap tokenData) (priceAt 0),
             posExitMarketCap = marketCapOr (currentMarketCap tokenData) (priceAt 5) \<rparr>
   \<and> processBuy priceAt
       \<lparr> stSells = [\<lparr> amount = Num 120, timestamp = 5 \<rparr>], stSellIndex = 0,
         stInvestedAmount = Num 0, stNetTokens = Num 0 \<rparr>
       \<lparr> amount = Num 100, timestamp = 0 \<rparr>
     = \<lparr> stSells = [\<lparr> amount = Num 20, timestamp = 5 \<rparr>], stSellIndex = 0,
         stInvestedAmount = Num 0, stNetTokens = Num 0 \<rparr>
   \<and> processBuy priceAt
       \<lparr> stSells = [\<lparr> amount = Num 20, timestamp = 5 \<rparr>], stSellIndex = 0,
         stInvestedAmount = Num 0, stNetTokens = Num 0 \<rparr>
       \<lparr> amount = Num 50, timestamp = 10 \<rparr>
     = \<lparr> stSells = [\<lparr> amount = Num 20, timestamp = 5 \<rparr>], stSellIndex = 1,
         stInvestedAmount = js_add (Num 0) (js_mul (Num 50) (priceOrZero (priceAt 10))),
         stNetTokens = Num 50 \<rparr>"
  by (simp add: fetchWalletData_def example3_buys example3_sells Let_def
        example3_first_buy example3_second_buy)

theorem example3_position_witness:
  "fetchWalletData ''W'' ''M'' tokenT 99 priceTwo example3
     = Inr \<lparr> posInvestedAmount = Num 100, posEntryMarketCap = Num 1000,
             posExitMarketCap = Num 1000 \<rparr>"
  using example3_position [of tokenT 99 priceTwo]
  by (simp add: priceOrZero_def marketCapOr_def priceTwo_def truthy_def)

text \<open>
  C9. \<^verbatim>\<open>fetchWalletData\<close> returns the error \<open>NoBuyActivity\<close> when no transaction of
  the stream carries a transfer of the mint to the wallet; on every stream with such a
  transfer it returns a position.
\<close>

theorem no_buy_activity:
  "((\<forall>tx \<in> set transactions. \<forall>transfers. tokenTransfers tx = Some transfers \<longrightarrow>
        (\<forall>transfer \<in> set transfers.
           \<not> (mint transfer = contractAddress \<and> toUserAccount transfer = walletAddr)))
      \<longrightarrow> fetchWalletData walletAddr contractAddress tokenData now priceAt transactions
            = Inl NoBuyActivity)
   \<and> ((\<exists>tx \<in> set transactions. \<exists>transfers. tokenTransfers tx = Some transfers
          \<and> (\<exists>transfer \<in> set transfers.
                 mint transfer = contractAddress \<and> toUserAccount transfer = walletAddr))
      \<longrightarrow> (\<exists>d. fetchWalletData walletAddr contractAddress tokenData now priceAt transactions
                 = Inr d))"
proof (intro conjI impI)
  assume "\<forall>tx \<in> set transactions. \<forall>transfers. tokenTransfers tx = Some transfers \<longrightarrow>
        (\<forall>transfer \<in> set transfers.
           \<not> (mint transfer = contractAddress \<and> toUserAccount transfer = walletAddr))"
  then have "collectBuys walletAddr contractAddress transactions = []"
    by (simp only: collectBuys_empty_iff)
  then show "fetchWalletData walletAddr contractAddress tokenData now priceAt transactions
               = Inl NoBuyActivity"
    by (simp add: fetchWalletData_def Let_def)
next
  assume "\<exists>tx \<in> set transactions. \<exists>transfers. tokenTransfers tx = Some transfers
          \<and> (\<exists>transfer \<in> set transfers.
                 mint transfer = contractAddress \<and> toUserAccount transfer = walletAddr)"
  then have "collectBuys walletAddr contractAddress transactions \<noteq> []"
    unfolding collectBuys_empty_iff by blast
  then show "\<exists>d. fetchWalletData walletAddr contractAddress tokenData now priceAt transactions
                 = Inr d"
    by (simp add: fetchWalletData_def Let_def)
qed

theorem no_buy_activity_witness:
  "fetchWalletData ''W'' ''M'' tokenT 99 priceTwo onlySell = Inl NoBuyActivity
   \<and> (\<exists>d. fetchWalletData ''W'' ''M'' tokenT 99 priceTwo example3 = Inr d)"
proof -
  have a: "\<forall>tx \<in> set onlySell. \<forall>transfers. tokenTransfers tx = Some transfers \<longrightarrow>
        (\<forall>transfer \<in> set transfers. \<not> (mint transfer = ''M'' \<and> toUserAccount transfer = ''W''))"
    by (simp add: onlySell_def mkTransfer_def)
  have b: "\<exists>tx \<in> set example3. \<exists>transfers. tokenTransfers tx = Some transfers
          \<and> (\<exists>transfer \<in> set transfers. mint transfer = ''M'' \<and> toUserAccount transfer = ''W'')"
    by (simp add: example3_def mkTransfer_def)
  from no_buy_activity [of onlySell "''M''" "''W''" tokenT 99 priceTwo]
    no_buy_activity [of example3 "''M''" "''W''" tokenT 99 priceTwo] a b
  show ?thesis by blast
qed

text \<open>
  C10. A zero-valued sample is a miss for the reconstruction. When the oracle's sample
  at the entry (exit) timestamp has market cap 0, the entry (exit) market cap is
  \<^verbatim>\<open>tokenData.currentMarketCap\<close>, as on a miss; replacing every sample whose price and
  market cap are 0 by a miss leaves the whole result unchanged; and a buy with a finite
  amount, matched against finite sells and priced by a sample with price 0, leaves the
  invested amount as it was, exactly as the same step does when the oracle misses at the
  buy's timestamp.
\<close>

theorem zero_sample_is_a_miss:
  assumes "collectBuys walletAddr contractAddress transactions \<noteq> []"
  shows "\<exists>d. fetchWalletData walletAddr contractAddress tokenData now priceAt transactions = Inr d
           \<and> fetchWalletData walletAddr contractAddress tokenData now (zeroToMiss priceAt) transactions
               = Inr d
           \<and> (priceAt (entryTimestampOf walletAddr contractAddress transactions) = None
               \<or> (\<exists>s. priceAt (entryTimestampOf walletAddr contractAddress transactions) = Some s
                       \<and> marketCap s = Num 0)
                 \<longrightarrow> posEntryMarketCap d = currentMarketCap tokenData)
           \<and> (priceAt (exitTimestampOf walletAddr contractAddress now transactions) = None
               \<or> (\<exists>s. priceAt (exitTimestampOf walletAddr contractAddress now transactions) = Some s
                       \<and> marketCap s = Num 0)
                 \<longrightarrow> posExitMarketCap d = currentMarketCap tokenData)
           \<and> (\<forall>st buy s. priceAt (timestamp buy) = Some s \<and> price s = Num 0
                  \<and> fin (amount buy) \<and> (\<forall>x \<in> set (stSells st). fin (amount x))
                 \<longrightarrow> stInvestedAmount (processBuy priceAt st buy) = stInvestedAmount st
                     \<and> processBuy priceAt st buy
                         = processBuy (priceAt(timestamp buy := None)) st buy)"
proof -
  from assms obtain d where d:
    "fetchWalletData walletAddr contractAddress tokenData now priceAt transactions = Inr d"
    by (auto simp: fetchWalletData_def Let_def)
  from assms d have entry: "posEntryMarketCap d
      = marketCapOr (currentMarketCap tokenData)
          (priceAt (entryTimestampOf walletAddr contractAddress transactions))"
    by (auto simp: fetchWalletData_def Let_def entryTimestampOf_def)
  from assms d have exit': "posExitMarketCap d
      = marketCapOr (currentMarketCap tokenData)
          (priceAt (exitTimestampOf walletAddr contractAddress now transactions))"
    by (auto simp: fetchWalletData_def Let_def exitTimestampOf_def)
  have buy: "\<forall>st buy s. priceAt (timestamp buy) = Some s \<and> price s = Num 0
                  \<and> fin (amount buy) \<and> (\<forall>x \<in> set (stSells st). fin (amount x))
                 \<longrightarrow> stInvestedAmount (processBuy priceAt st buy) = stInvestedAmount st
                     \<and> processBuy priceAt st buy
                         = processBuy (priceAt(timestamp buy := None)) st buy"
    using zero_price_contribution by blast
  from d fetchWalletData_zeroToMiss [of walletAddr contractAddress tokenData now priceAt transactions]
  have "fetchWalletData walletAddr contractAddress tokenData now (zeroToMiss priceAt) transactions
               = Inr d" by simp
  moreover have "priceAt (entryTimestampOf walletAddr contractAddress transactions) = None
               \<or> (\<exists>s. priceAt (entryTimestampOf walletAddr contractAddress transactions) = Some s
                       \<and> marketCap s = Num 0)
                 \<longrightarrow> posEntryMarketCap d = currentMarketCap tokenData"
    unfolding entry by (auto simp: marketCapOr_def truthy_def)
  moreover have "priceAt (exitTimestampOf walletAddr contractAddress now transactions) = None
               \<or> (\<exists>s. priceAt (exitTimestampOf walletAddr contractAddress now transactions) = Some s
                       \<and> marketCap s = Num 0)
                 \<longrightarrow> posExitMarketCap d = currentMarketCap tokenData"
    unfolding exit' by (auto simp: marketCapOr_def truthy_def)
  ultimately show ?thesis using d buy by blast
qed

theorem zero_sample_is_a_miss_witness:
  "collectBuys ''W'' ''M'' example3 \<noteq> []
   \<and> zeroOracle (entryTimestampOf ''W'' ''M'' example3) = Some \<lparr> price = Num 0, marketCap = Num 0 \<rparr>
   \<and> zeroOracle (exitTimestampOf ''W'' ''M'' 99 example3) = Some \<lparr> price = Num 0, marketCap = Num 0 \<rparr>
   \<and> (\<exists>d. fetchWalletData ''W'' ''M'' tokenT 99 zeroOracle example3 = Inr d
          \<and> fetchWalletData ''W'' ''M'' tokenT 99 (zeroToMiss zeroOracle) example3 = Inr d
          \<and> posEntryMarketCap d = Num 7 \<and> posExitMarketCap d = Num 7)
   \<and> stInvestedAmount
       (processBuy zeroOracle
          \<lparr> stSells = [\<lparr> amount = Num 20, timestamp = 5 \<rparr>], stSellIndex = 0,
            stInvestedAmount = Num 3, stNetTokens = Num 0 \<rparr>
          \<lparr> amount = Num 50, timestamp = 10 \<rparr>) = Num 3"
proof -
  have b: "collectBuys ''W'' ''M'' example3 \<noteq> []"
    by (simp add: example3_buys)
  from zero_sample_is_a_miss [OF b, of tokenT 99 zeroOracle]
  obtain d where d: "fetchWalletData ''W'' ''M'' tokenT 99 zeroOracle example3 = Inr d"
    "fetchWalletData ''W'' ''M'' tokenT 99 (zeroToMiss zeroOracle) example3 = Inr d"
    "posEntryMarketCap d = currentMarketCap tokenT"
    "posExitMarketCap d = currentMarketCap tokenT"
    and step: "\<forall>st buy s. zeroOracle (timestamp buy) = Some s \<and> price s = Num 0
                  \<and> fin (amount buy) \<and> (\<forall>x \<in> set (stSells st). fin (amount x))
                 \<longrightarrow> stInvestedAmount (processBuy zeroOracle st buy) = stInvestedAmount st
                     \<and> processBuy zeroOracle st buy
                         = processBuy (zeroOracle(timestamp buy := None)) st buy"
    by (auto simp: zeroOracle_def)
  let ?st = "\<lparr> stSells = [\<lparr> amount = Num 20, timestamp = 5 \<rparr>], stSellIndex = 0,
            stInvestedAmount = Num 3, stNetTokens = Num 0 \<rparr>"
  let ?buy = "\<lparr> amount = Num 50, timestamp = 10 \<rparr>"
  let ?s = "\<lparr> price = Num 0, marketCap = Num 0 \<rparr>"
  have "zeroOracle (timestamp ?buy) = Some ?s \<and> price ?s = Num 0
          \<and> fin (amount ?buy) \<and> (\<forall>x \<in> set (stSells ?st). fin (amount x))"
    by (simp add: zeroOracle_def)
  with step have "stInvestedAmount (processBuy zeroOracle ?st ?buy) = stInvestedAmount ?st"
    by blast
  then have "stInvestedAmount (processBuy zeroOracle ?st ?buy) = Num 3"
    by simp
  with d b show ?thesis
    by (auto simp: zeroOracle_def tokenT_def)
qed

end
